theory Spec2Isabelle
  imports Complex_Main
begin

section \<open>Complex refractive index of liquid water and of ice (refraction.py)\<close>

text \<open>
  The two functions of \<^verbatim>\<open>refraction.py\<close> are embedded as HOL functions. Numbers are
  the mathematical reals and complex numbers: the rounding of the arithmetic in the
  formulas, overflow and a not-a-number \<^emph>\<open>input\<close> are outside the model. The bounds of the
  guards are the exception: each comparison of the model agrees with the comparison of the
  code on every double. Not-a-number occurs where the code writes it, as the fill value of
  the result matrix. Every place where Python or numpy can fail is a branch that returns an
  \<open>error\<close>.
\<close>

subsection \<open>Values and errors\<close>

datatype error = ValueError | ZeroDivisionError | IndexError

text \<open>An entry of a numpy array of doubles: the sentinel or a number.\<close>

datatype numeric = NaN | Num real

type_synonym row = "numeric \<times> numeric"

type_synonym matrix = "row list"

definition rbind :: "error + 'a \<Rightarrow> ('a \<Rightarrow> error + 'b) \<Rightarrow> error + 'b" where
  "rbind m k = (case m of Inl e \<Rightarrow> Inl e | Inr v \<Rightarrow> k v)"

text \<open>
  Division. A zero divisor raises \<^verbatim>\<open>ZeroDivisionError\<close> on Python numbers and gives
  an infinity or not-a-number with a warning on numpy numbers; the model treats both as
  the failure \<open>ZeroDivisionError\<close>, since neither is a real or complex number.
\<close>

definition py_div :: "'a::field \<Rightarrow> 'a \<Rightarrow> error + 'a" where
  "py_div x y = (if y = 0 then Inl ZeroDivisionError else Inr (x / y))"

subsection \<open>The numpy operations the code uses\<close>

text \<open>
  \<^verbatim>\<open>np.empty((nf, 2))\<close> allocates without initialising: the rows hold whatever the
  memory held before, here the parameter \<open>mem\<close>.
\<close>

definition np_empty :: "(nat \<Rightarrow> row) \<Rightarrow> nat \<Rightarrow> matrix" where
  "np_empty mem nf = map mem [0..<nf]"

text \<open>\<^verbatim>\<open>complex_n[:] = v\<close> stores \<open>v\<close> in every entry.\<close>

definition fill :: "numeric \<Rightarrow> matrix \<Rightarrow> matrix" where
  "fill v complex_n = map (\<lambda>_. (v, v)) complex_n"

text \<open>\<^verbatim>\<open>np.min\<close> and \<^verbatim>\<open>np.max\<close> raise \<^verbatim>\<open>ValueError\<close> on an array of size zero.\<close>

fun np_min :: "real list \<Rightarrow> error + real" where
  "np_min [] = Inl ValueError"
| "np_min (x # xs) = Inr (fold min xs x)"

fun np_max :: "real list \<Rightarrow> error + real" where
  "np_max [] = Inl ValueError"
| "np_max (x # xs) = Inr (fold max xs x)"

text \<open>\<^verbatim>\<open>freq[iv]\<close> with \<open>iv\<close> not negative.\<close>

definition getitem :: "'a list \<Rightarrow> nat \<Rightarrow> error + 'a" where
  "getitem xs i = (if i < length xs then Inr (xs ! i) else Inl IndexError)"

text \<open>\<^verbatim>\<open>complex_n[i, j] = v\<close> on a matrix of two columns.\<close>

definition setitem :: "matrix \<Rightarrow> nat \<Rightarrow> nat \<Rightarrow> real \<Rightarrow> error + matrix" where
  "setitem complex_n i j v =
     (if i < length complex_n then
        (if j = 0 then Inr (complex_n[i := (Num v, snd (complex_n ! i))])
         else if j = 1 then Inr (complex_n[i := (fst (complex_n ! i), Num v)])
         else Inl IndexError)
      else Inl IndexError)"

text \<open>
  \<^verbatim>\<open>for iv in range(n): body\<close> on a state \<open>s\<close>: the iterations \<open>0, ..., n - 1\<close> in this
  order, stopping at the first failure.
\<close>

primrec for_range :: "(nat \<Rightarrow> 's \<Rightarrow> error + 's) \<Rightarrow> nat \<Rightarrow> 's \<Rightarrow> error + 's" where
  "for_range body 0 s = Inr s"
| "for_range body (Suc n) s = rbind (for_range body n s) (body n)"

subsection \<open>complex_n_water_liebe93\<close>

text \<open>
  Line 86. The literal \<^verbatim>\<open>273.15\<close> is no double: Python reads it as the nearest double,
  which is a little below 273.15.
\<close>

definition TEMP_0_C :: real where
  "TEMP_0_C = 2402652809016115 / 2 ^ 43"

text \<open>
  Lines 87 to 90. The guard gives \<open>True\<close> when one of the two \<^verbatim>\<open>if\<close> statements
  returns the matrix as filled. Python's \<^verbatim>\<open>or\<close> evaluates \<^verbatim>\<open>np.max\<close> only when the
  comparison of \<^verbatim>\<open>np.min\<close> is false.

  Both bounds of the temperature are doubles, so the code computes them without rounding.
  \<^verbatim>\<open>TEMP_0_C - 40\<close> is \<open>2050809088127795 / 2 ^ 43\<close>, printed 233.14999999999998: it is the
  double below the one nearest to 233.15, so a temperature equal to it is not below the
  bound. \<^verbatim>\<open>TEMP_0_C + 100\<close> is the double nearest to 373.15; it is below 373.15 and the next
  double is above, so for a temperature that is a double \<^verbatim>\<open>t > TEMP_0_C + 100\<close> is
  \<open>t > 373.15\<close>, which is what the model compares.
\<close>

definition water_guard :: "real list \<Rightarrow> real \<Rightarrow> error + bool" where
  "water_guard freq t =
     (if t < TEMP_0_C - 40 \<or> t > 373.15 then Inr True
      else rbind (np_min freq) (\<lambda>lo.
        if lo < 10 then Inr True
        else rbind (np_max freq) (\<lambda>hi.
          if hi > 1000 then Inr True else Inr False)))"

text \<open>Lines 95 to 100: the local variables the loop reads.\<close>

record water_vars =
  theta :: real
  e0 :: real
  e1 :: real
  f1 :: real
  e2 :: real
  f2 :: real

definition water_locals :: "real \<Rightarrow> error + water_vars" where
  "water_locals t =
     rbind (py_div 300 t) (\<lambda>q.
       let theta = 1 - q;
           e0 = 77.66 - 103.3 * theta;
           e1 = 0.0671 * e0;
           f1 = 20.2 + 146 * theta + 316 * theta * theta;
           e2 = 3.52;
           f2 = 39.8 * f1
       in Inr \<lparr>theta = theta, e0 = e0, e1 = e1, f1 = f1, e2 = e2, f2 = f2\<rparr>)"

text \<open>Lines 103 and 104: the refractive index at one frequency.\<close>

definition water_n :: "water_vars \<Rightarrow> real \<Rightarrow> error + complex" where
  "water_n p f =
     (let ifGHz = Complex 0 0 + \<i> * of_real f in
      rbind (py_div ifGHz (of_real (f2 p))) (\<lambda>q2.
      rbind (py_div (of_real (e1 p - e2 p)) (1 - q2)) (\<lambda>a.
      rbind (py_div ifGHz (of_real (f1 p))) (\<lambda>q1.
      rbind (py_div (of_real (e0 p - e1 p)) (1 - q1)) (\<lambda>b.
        Inr (csqrt (of_real (e2 p) + a + b)))))))"

text \<open>Lines 103 to 107: the body of the loop.\<close>

definition water_body :: "water_vars \<Rightarrow> real list \<Rightarrow> nat \<Rightarrow> matrix \<Rightarrow> error + matrix" where
  "water_body p freq iv complex_n =
     rbind (getitem freq iv) (\<lambda>f.
     rbind (water_n p f) (\<lambda>n.
     rbind (setitem complex_n iv 0 (Re n)) (\<lambda>complex_n.
       setitem complex_n iv 1 (Im n))))"

definition complex_n_water_liebe93 :: "(nat \<Rightarrow> row) \<Rightarrow> real list \<Rightarrow> real \<Rightarrow> error + matrix" where
  "complex_n_water_liebe93 mem freq t =
     (let nf = length freq;
          complex_n = np_empty mem nf;
          complex_n = fill NaN complex_n
      in rbind (water_guard freq t) (\<lambda>leave.
           if leave then Inr complex_n
           else rbind (water_locals t) (\<lambda>p.
             for_range (water_body p freq) nf complex_n)))"

subsection \<open>complex_n_ice_matzler06\<close>

text \<open>Lines 146 to 149.\<close>

definition ice_guard :: "real list \<Rightarrow> real \<Rightarrow> error + bool" where
  "ice_guard freq t =
     (if t < 20 \<or> t > 280 then Inr True
      else rbind (np_min freq) (\<lambda>lo.
        if lo < 0.01 then Inr True
        else rbind (np_max freq) (\<lambda>hi.
          if hi > 3000 then Inr True else Inr False)))"

text \<open>Lines 160 to 170: the local variables.\<close>

record ice_vars =
  B2 :: real
  deltabeta :: real
  ebdt :: real
  betam :: real
  theta_ice :: real
  alfa :: real
  reps :: real

definition ice_locals :: "real \<Rightarrow> error + ice_vars" where
  "ice_locals t =
     (let B1 = 0.0207;
          B2 = 1.16 / 10 ^ 11;
          b = 335;
          deltabeta = exp (- 9.963 + 0.0372 * (t - 273))
      in rbind (py_div b t) (\<lambda>bt.
         let ebdt = exp bt in
         rbind (py_div B1 t) (\<lambda>q.
         rbind (py_div (q * ebdt) ((ebdt - 1) * (ebdt - 1))) (\<lambda>betam.
         rbind (py_div 300 t) (\<lambda>r.
           let theta = r - 1;
               alfa = (0.00504 + 0.0062 * theta) * exp (- 22.1 * theta);
               reps = 3.1884 + 0.00091 * (t - 273)
           in Inr \<lparr>B2 = B2, deltabeta = deltabeta, ebdt = ebdt, betam = betam,
                    theta_ice = theta, alfa = alfa, reps = reps\<rparr>)))))"

text \<open>Lines 173 to 179: the refractive index at one frequency.\<close>

definition ice_n :: "ice_vars \<Rightarrow> real \<Rightarrow> error + complex" where
  "ice_n p f =
     (let beta = betam p + B2 p * f * f + deltabeta p in
      rbind (py_div (alfa p) f) (\<lambda>q.
        let ieps = q + beta * f;
            eps = of_real (reps p) + \<i> * of_real ieps
        in Inr (csqrt eps)))"

text \<open>Lines 173 to 181: the body of the loop.\<close>

definition ice_body :: "ice_vars \<Rightarrow> real list \<Rightarrow> nat \<Rightarrow> matrix \<Rightarrow> error + matrix" where
  "ice_body p freq iv complex_n =
     rbind (getitem freq iv) (\<lambda>f.
     rbind (ice_n p f) (\<lambda>n.
     rbind (setitem complex_n iv 0 (Re n)) (\<lambda>complex_n.
       setitem complex_n iv 1 (Im n))))"

definition complex_n_ice_matzler06 :: "(nat \<Rightarrow> row) \<Rightarrow> real list \<Rightarrow> real \<Rightarrow> error + matrix" where
  "complex_n_ice_matzler06 mem freq t =
     (let nf = length freq;
          complex_n = np_empty mem nf;
          complex_n = fill NaN complex_n
      in rbind (ice_guard freq t) (\<lambda>leave.
           if leave then Inr complex_n
           else rbind (ice_locals t) (\<lambda>p.
             for_range (ice_body p freq) nf complex_n)))"

subsection \<open>The models as the specification writes them\<close>

text \<open>A row of the result: the real and the imaginary part of one refractive index.\<close>

definition emit :: "complex \<Rightarrow> row" where
  "emit n = (Num (Re n), Num (Im n))"

text \<open>
  Liquid water: the permittivity
  \<open>\<epsilon>(f) = e2 + (e1 - e2) / (1 - i f / f2) + (e0 - e1) / (1 - i f / f1)\<close> and its
  principal square root.
\<close>

definition liebe93_eps :: "real \<Rightarrow> real \<Rightarrow> complex" where
  "liebe93_eps T f =
     (let \<theta> = 1 - 300 / T;
          e0 = 77.66 - 103.3 * \<theta>;
          e1 = 0.0671 * e0;
          f1 = 20.2 + 146 * \<theta> + 316 * \<theta>\<^sup>2;
          e2 = 3.52;
          f2 = 39.8 * f1
      in of_real e2 + of_real (e1 - e2) / (1 - \<i> * of_real f / of_real f2)
           + of_real (e0 - e1) / (1 - \<i> * of_real f / of_real f1))"

definition liebe93_n :: "real \<Rightarrow> real \<Rightarrow> complex" where
  "liebe93_n T f = csqrt (liebe93_eps T f)"

text \<open>
  Ice: the permittivity \<open>\<epsilon>(f) = reps + i ieps\<close> with \<open>ieps = \<alpha> / f + \<beta> f\<close> and its
  principal square root.
\<close>

definition matzler06_eps :: "real \<Rightarrow> real \<Rightarrow> complex" where
  "matzler06_eps T f =
     (let B1 = 0.0207;
          B2 = 1.16 / 10 ^ 11;
          b = 335;
          \<Delta>\<beta> = exp (- 9.963 + 0.0372 * (T - 273));
          \<beta>m = (B1 / T) * exp (b / T) / (exp (b / T) - 1)\<^sup>2;
          \<theta> = 300 / T - 1;
          \<alpha> = (0.00504 + 0.0062 * \<theta>) * exp (- 22.1 * \<theta>);
          reps = 3.1884 + 0.00091 * (T - 273);
          \<beta> = \<beta>m + B2 * f\<^sup>2 + \<Delta>\<beta>;
          ieps = \<alpha> / f + \<beta> * f
      in of_real reps + \<i> * of_real ieps)"

definition matzler06_n :: "real \<Rightarrow> real \<Rightarrow> complex" where
  "matzler06_n T f = csqrt (matzler06_eps T f)"

text \<open>Properties of a row: both parts are numbers; the real part is a number not below zero.\<close>

definition is_computed :: "row \<Rightarrow> bool" where
  "is_computed r = (fst r \<noteq> NaN \<and> snd r \<noteq> NaN)"

definition re_nonneg :: "row \<Rightarrow> bool" where
  "re_nonneg r = (case fst r of NaN \<Rightarrow> False | Num x \<Rightarrow> 0 \<le> x)"

subsection \<open>Two memory contents for concrete runs\<close>

text \<open>What an earlier computation may have left where \<^verbatim>\<open>np.empty\<close> allocates.\<close>

definition stale :: "nat \<Rightarrow> row" where
  "stale i = (Num (of_nat i), Num 1)"

definition blank :: "nat \<Rightarrow> row" where
  "blank i = (NaN, Num 0)"

section \<open>Properties of the building blocks\<close>

subsection \<open>The bounds of the water guard\<close>

text \<open>
  \<open>TEMP_0_C\<close> is the double nearest to 273.15: a multiple of \<open>1 / 2 ^ 44\<close>, the distance of
  two doubles between 256 and 512, and less than half of that away from 273.15.
\<close>

lemma TEMP_0_C_nearest:
  "TEMP_0_C = 4805305618032230 / 2 ^ 44 \<and> TEMP_0_C \<le> 273.15 \<and> 273.15 - TEMP_0_C < 1 / 2 ^ 45"
  by (simp add: TEMP_0_C_def)

text \<open>The lower bound is below 233.15 by less than the distance of two doubles there.\<close>

lemma water_lower_bound:
  "TEMP_0_C - 40 = 2050809088127795 / 2 ^ 43"
  "0 < TEMP_0_C - 40"
  "TEMP_0_C - 40 < 233.15"
  "233.15 - (TEMP_0_C - 40) < 1 / 2 ^ 45"
  by (simp_all add: TEMP_0_C_def)

text \<open>No double lies above \<open>TEMP_0_C + 100\<close> and not above 373.15.\<close>

lemma water_upper_bound:
  "TEMP_0_C + 100 = 6564524222473830 / 2 ^ 44"
  "TEMP_0_C + 100 < 373.15"
  "373.15 < TEMP_0_C + 100 + 1 / 2 ^ 44"
  by (simp_all add: TEMP_0_C_def)

subsection \<open>The guards\<close>

text \<open>On a grid that is not empty, \<^verbatim>\<open>np.min\<close> and \<^verbatim>\<open>np.max\<close> are the least and the greatest element.\<close>

lemma np_min_Min: "freq \<noteq> [] \<Longrightarrow> np_min freq = Inr (Min (set freq))"
  by (cases freq) (simp_all only: np_min.simps Min.set_eq_fold, simp)

lemma np_max_Max: "freq \<noteq> [] \<Longrightarrow> np_max freq = Inr (Max (set freq))"
  by (cases freq) (simp_all only: np_max.simps Max.set_eq_fold, simp)

lemma water_guard_eq:
  "water_guard freq t =
     (if t < TEMP_0_C - 40 \<or> 373.15 < t then Inr True
      else if freq = [] then Inl ValueError
      else Inr (Min (set freq) < 10 \<or> 1000 < Max (set freq)))"
  by (cases "freq = []") (auto simp: water_guard_def rbind_def np_min_Min np_max_Max)

lemma ice_guard_eq:
  "ice_guard freq t =
     (if t < 20 \<or> 280 < t then Inr True
      else if freq = [] then Inl ValueError
      else Inr (Min (set freq) < 0.01 \<or> 3000 < Max (set freq)))"
  by (cases "freq = []") (auto simp: ice_guard_def rbind_def np_min_Min np_max_Max)

subsection \<open>The matrix and the loop\<close>

text \<open>After the fill nothing is left of what the memory held.\<close>

lemma fill_np_empty: "fill NaN (np_empty mem nf) = replicate nf (NaN, NaN)"
  by (simp add: fill_def np_empty_def map_replicate_const)

lemma length_fill_np_empty: "length (fill v (np_empty mem nf)) = nf"
  by (simp add: fill_def np_empty_def)

text \<open>
  A loop whose iteration \<open>iv\<close> stores a row at index \<open>iv\<close>: after \<open>n\<close> iterations the first
  \<open>n\<close> rows are the stored ones and the rest is as before.
\<close>

lemma for_range_rows:
  assumes "\<And>iv m. iv < n \<Longrightarrow> length m = N \<Longrightarrow> body iv m = Inr (m[iv := h iv])"
    and "n \<le> N" and "length m0 = N"
  shows "for_range body n m0 = Inr (map h [0..<n] @ drop n m0)"
  using assms
proof (induction n)
  case 0
  then show ?case by simp
next
  case (Suc n)
  have "for_range body n m0 = Inr (map h [0..<n] @ drop n m0)"
    using Suc by simp
  moreover have "length (map h [0..<n] @ drop n m0) = N"
    using Suc.prems by simp
  moreover have "(map h [0..<n] @ drop n m0)[n := h n] = map h [0..<Suc n] @ drop (Suc n) m0"
  proof -
    have "drop n m0 = m0 ! n # drop (Suc n) m0"
      using Suc.prems by (simp add: Cons_nth_drop_Suc)
    then show ?thesis by (simp add: list_update_append)
  qed
  ultimately show ?case
    using Suc.prems(1)[of n "map h [0..<n] @ drop n m0"] by (simp add: rbind_def)
qed

subsection \<open>Liquid water inside the window\<close>

text \<open>The relaxation frequency \<open>f1\<close> is above zero at every temperature, so no divisor is zero.\<close>

lemma f1_pos: "0 < 20.2 + 146 * x + 316 * (x::real)\<^sup>2"
proof -
  have "0 \<le> 316 * (x + 73 / 316)\<^sup>2" by simp
  also have "316 * (x + 73 / 316)\<^sup>2 = 316 * x\<^sup>2 + 146 * x + 5329 / 316"
    by (simp add: power2_eq_square algebra_simps)
  finally show ?thesis by simp
qed

lemma water_locals_eq:
  "t \<noteq> 0 \<Longrightarrow> water_locals t =
     Inr \<lparr>theta = 1 - 300 / t, e0 = 77.66 - 103.3 * (1 - 300 / t),
          e1 = 0.0671 * (77.66 - 103.3 * (1 - 300 / t)),
          f1 = 20.2 + 146 * (1 - 300 / t) + 316 * (1 - 300 / t) * (1 - 300 / t),
          e2 = 3.52,
          f2 = 39.8 * (20.2 + 146 * (1 - 300 / t) + 316 * (1 - 300 / t) * (1 - 300 / t))\<rparr>"
  by (simp add: water_locals_def rbind_def py_div_def Let_def)

lemma one_minus_imag_nonzero: "1 - \<i> * of_real f / of_real d \<noteq> 0"
proof -
  have "Re (1 - \<i> * of_real f / of_real d) = 1"
    by (simp add: Re_divide)
  then show ?thesis by force
qed

lemma water_n_eq:
  assumes "water_locals t = Inr p" and "t \<noteq> 0"
  shows "water_n p f = Inr (liebe93_n t f)"
proof -
  have p: "p = \<lparr>theta = 1 - 300 / t, e0 = 77.66 - 103.3 * (1 - 300 / t),
          e1 = 0.0671 * (77.66 - 103.3 * (1 - 300 / t)),
          f1 = 20.2 + 146 * (1 - 300 / t) + 316 * (1 - 300 / t) * (1 - 300 / t),
          e2 = 3.52,
          f2 = 39.8 * (20.2 + 146 * (1 - 300 / t) + 316 * (1 - 300 / t) * (1 - 300 / t))\<rparr>"
    using assms water_locals_eq[of t] by simp
  have e0: "e0 p = 77.66 - 103.3 * (1 - 300 / t)"
    by (simp only: p water_vars.select_convs)
  have e1: "e1 p = 0.0671 * (77.66 - 103.3 * (1 - 300 / t))"
    by (simp only: p water_vars.select_convs)
  have f1: "f1 p = 20.2 + 146 * (1 - 300 / t) + 316 * (1 - 300 / t)\<^sup>2"
    by (simp only: p water_vars.select_convs power2_eq_square mult.assoc)
  have e2: "e2 p = 3.52"
    by (simp only: p water_vars.select_convs)
  have f2: "f2 p = 39.8 * (20.2 + 146 * (1 - 300 / t) + 316 * (1 - 300 / t)\<^sup>2)"
    by (simp only: p water_vars.select_convs power2_eq_square mult.assoc)
  have f1_gt: "0 < f1 p"
    unfolding f1 by (rule f1_pos)
  have "f2 p = 39.8 * f1 p"
    by (simp only: f1 f2)
  then have f2_gt: "0 < f2 p"
    using f1_gt by simp
  have f1_nz: "f1 p \<noteq> 0" and f2_nz: "f2 p \<noteq> 0"
    using f1_gt f2_gt by simp_all
  have i: "Complex 0 0 + \<i> * of_real f = \<i> * of_real f"
    by (simp add: complex_eq_iff)
  have d1: "1 - \<i> * of_real f / of_real (f1 p) \<noteq> 0"
    by (rule one_minus_imag_nonzero)
  have d2: "1 - \<i> * of_real f / of_real (f2 p) \<noteq> 0"
    by (rule one_minus_imag_nonzero)
  have "water_n p f = Inr (csqrt (of_real (e2 p)
          + of_real (e1 p - e2 p) / (1 - \<i> * of_real f / of_real (f2 p))
          + of_real (e0 p - e1 p) / (1 - \<i> * of_real f / of_real (f1 p))))"
    using f1_nz f2_nz d1 d2 by (simp add: water_n_def rbind_def py_div_def Let_def i)
  also have "of_real (e2 p)
          + of_real (e1 p - e2 p) / (1 - \<i> * of_real f / of_real (f2 p))
          + of_real (e0 p - e1 p) / (1 - \<i> * of_real f / of_real (f1 p)) = liebe93_eps t f"
    by (simp only: liebe93_eps_def Let_def e0 e1 f1 e2 f2)
  finally show ?thesis by (simp only: liebe93_n_def)
qed

lemma body_rows:
  assumes "iv < length freq" and "length m = length freq" and "calc (freq ! iv) = Inr n"
  shows "rbind (getitem freq iv) (\<lambda>f. rbind (calc f) (\<lambda>n.
           rbind (setitem m iv 0 (Re n)) (\<lambda>m'. setitem m' iv 1 (Im n))))
         = Inr (m[iv := emit n])"
  using assms by (simp add: getitem_def rbind_def setitem_def emit_def)

lemma loop_rows:
  assumes "\<And>iv m. iv < length freq \<Longrightarrow> length m = length freq \<Longrightarrow>
             body iv m = Inr (m[iv := emit (g (freq ! iv))])"
    and "length m0 = length freq"
  shows "for_range body (length freq) m0 = Inr (map (\<lambda>f. emit (g f)) freq)"
proof -
  have "for_range body (length freq) m0
          = Inr (map (\<lambda>iv. emit (g (freq ! iv))) [0..<length freq] @ drop (length freq) m0)"
    using assms by (intro for_range_rows[where N = "length freq"]) simp_all
  also have "map (\<lambda>iv. emit (g (freq ! iv))) [0..<length freq]
          = map (\<lambda>f. emit (g f)) (map ((!) freq) [0..<length freq])"
    by (simp only: map_map o_def)
  also have "\<dots> = map (\<lambda>f. emit (g f)) freq"
    by (simp only: map_nth)
  finally show ?thesis using assms(2) by simp
qed

lemma within_band:
  assumes "freq \<noteq> []" and "\<forall>f\<in>set freq. lo \<le> f \<and> f \<le> (hi::real)"
  shows "lo \<le> Min (set freq) \<and> Max (set freq) \<le> hi"
  using assms by (simp add: Min_ge_iff Max_le_iff)

lemma water_in_window:
  assumes "TEMP_0_C - 40 \<le> t" and "t \<le> 373.15" and "freq \<noteq> []"
    and "\<forall>f\<in>set freq. 10 \<le> f \<and> f \<le> 1000"
  shows "complex_n_water_liebe93 mem freq t = Inr (map (\<lambda>f. emit (liebe93_n t f)) freq)"
proof -
  have t0: "t \<noteq> 0" using assms(1) water_lower_bound(2) by simp
  have g: "water_guard freq t = Inr False"
    using assms(1,2,3) within_band[OF assms(3,4)] by (simp add: water_guard_eq not_less)
  obtain p where p: "water_locals t = Inr p"
    using water_locals_eq[OF t0] by blast
  have body: "water_body p freq iv m = Inr (m[iv := emit (liebe93_n t (freq ! iv))])"
    if "iv < length freq" and "length m = length freq" for iv m
    unfolding water_body_def using that water_n_eq[OF p t0] by (rule body_rows)
  have "for_range (water_body p freq) (length freq) (fill NaN (np_empty mem (length freq)))
          = Inr (map (\<lambda>f. emit (liebe93_n t f)) freq)"
    by (rule loop_rows) (simp_all add: body length_fill_np_empty)
  then show ?thesis
    by (simp add: complex_n_water_liebe93_def Let_def g p rbind_def)
qed

subsection \<open>Ice inside the window\<close>

text \<open>Above 0 K, \<open>exp (b / t)\<close> is above one, so the divisor of \<open>betam\<close> is not zero.\<close>

lemma ice_locals_eq:
  assumes "0 < t"
  shows "ice_locals t =
     Inr \<lparr>B2 = 1.16 / 10 ^ 11,
          deltabeta = exp (- 9.963 + 0.0372 * (t - 273)),
          ebdt = exp (335 / t),
          betam = 0.0207 / t * exp (335 / t) / ((exp (335 / t) - 1) * (exp (335 / t) - 1)),
          theta_ice = 300 / t - 1,
          alfa = (0.00504 + 0.0062 * (300 / t - 1)) * exp (- 22.1 * (300 / t - 1)),
          reps = 3.1884 + 0.00091 * (t - 273)\<rparr>"
proof -
  have "0 < 335 / t" using assms by simp
  then have "exp (335 / t) \<noteq> 1" by simp
  then show ?thesis
    using assms by (simp add: ice_locals_def rbind_def py_div_def Let_def)
qed

lemma ice_n_eq:
  assumes "ice_locals t = Inr p" and "0 < t" and "f \<noteq> 0"
  shows "ice_n p f = Inr (matzler06_n t f)"
proof -
  have p: "p = \<lparr>B2 = 1.16 / 10 ^ 11,
          deltabeta = exp (- 9.963 + 0.0372 * (t - 273)),
          ebdt = exp (335 / t),
          betam = 0.0207 / t * exp (335 / t) / ((exp (335 / t) - 1) * (exp (335 / t) - 1)),
          theta_ice = 300 / t - 1,
          alfa = (0.00504 + 0.0062 * (300 / t - 1)) * exp (- 22.1 * (300 / t - 1)),
          reps = 3.1884 + 0.00091 * (t - 273)\<rparr>"
    using assms(1) ice_locals_eq[OF assms(2)] by simp
  have B2: "B2 p = 1.16 / 10 ^ 11"
    by (simp only: p ice_vars.select_convs)
  have db: "deltabeta p = exp (- 9.963 + 0.0372 * (t - 273))"
    by (simp only: p ice_vars.select_convs)
  have bm: "betam p = 0.0207 / t * exp (335 / t) / (exp (335 / t) - 1)\<^sup>2"
    by (simp only: p ice_vars.select_convs power2_eq_square)
  have al: "alfa p = (0.00504 + 0.0062 * (300 / t - 1)) * exp (- 22.1 * (300 / t - 1))"
    by (simp only: p ice_vars.select_convs)
  have re: "reps p = 3.1884 + 0.00091 * (t - 273)"
    by (simp only: p ice_vars.select_convs)
  have "ice_n p f = Inr (csqrt (of_real (reps p)
          + \<i> * of_real (alfa p / f + (betam p + B2 p * f * f + deltabeta p) * f)))"
    using assms(3) by (simp add: ice_n_def rbind_def py_div_def Let_def)
  also have "B2 p * f * f = B2 p * f\<^sup>2"
    by (simp add: power2_eq_square)
  also have "of_real (reps p)
          + \<i> * of_real (alfa p / f + (betam p + B2 p * f\<^sup>2 + deltabeta p) * f)
        = matzler06_eps t f"
    by (simp only: matzler06_eps_def Let_def B2 db bm al re)
  finally show ?thesis by (simp only: matzler06_n_def)
qed

lemma ice_in_window:
  assumes "20 \<le> t" and "t \<le> 280" and "freq \<noteq> []"
    and "\<forall>f\<in>set freq. 0.01 \<le> f \<and> f \<le> 3000"
  shows "complex_n_ice_matzler06 mem freq t = Inr (map (\<lambda>f. emit (matzler06_n t f)) freq)"
proof -
  have t0: "0 < t" using assms(1) by simp
  have g: "ice_guard freq t = Inr False"
    using assms(1,2,3) within_band[OF assms(3,4)] by (simp add: ice_guard_eq not_less)
  obtain p where p: "ice_locals t = Inr p"
    using ice_locals_eq[OF t0] by blast
  have body: "ice_body p freq iv m = Inr (m[iv := emit (matzler06_n t (freq ! iv))])"
    if "iv < length freq" and "length m = length freq" for iv m
  proof -
    have "0.01 \<le> freq ! iv" using that(1) assms(4) by simp
    then have "freq ! iv \<noteq> 0" by simp
    then show ?thesis
      unfolding ice_body_def using that ice_n_eq[OF p t0] by (intro body_rows) simp_all
  qed
  have "for_range (ice_body p freq) (length freq) (fill NaN (np_empty mem (length freq)))
          = Inr (map (\<lambda>f. emit (matzler06_n t f)) freq)"
    by (rule loop_rows) (simp_all add: body length_fill_np_empty)
  then show ?thesis
    by (simp add: complex_n_ice_matzler06_def Let_def g p rbind_def)
qed

subsection \<open>Every outcome of a call\<close>

lemma band_iff:
  assumes "freq \<noteq> []"
  shows "(\<not> Min (set freq) < lo \<and> \<not> hi < Max (set freq)) \<longleftrightarrow> (\<forall>f\<in>set freq. lo \<le> f \<and> f \<le> (hi::real))"
  using assms by (auto simp: not_less Min_ge_iff Max_le_iff)

lemma water_guard_passes:
  "water_guard freq t = Inr False \<longleftrightarrow>
     TEMP_0_C - 40 \<le> t \<and> t \<le> 373.15 \<and> freq \<noteq> [] \<and> (\<forall>f\<in>set freq. 10 \<le> f \<and> f \<le> 1000)"
proof (cases "freq = []")
  case True
  then show ?thesis by (simp add: water_guard_eq)
next
  case False
  show ?thesis
    unfolding band_iff[OF False, symmetric] using False by (auto simp: water_guard_eq)
qed

lemma ice_guard_passes:
  "ice_guard freq t = Inr False \<longleftrightarrow>
     20 \<le> t \<and> t \<le> 280 \<and> freq \<noteq> [] \<and> (\<forall>f\<in>set freq. 0.01 \<le> f \<and> f \<le> 3000)"
proof (cases "freq = []")
  case True
  then show ?thesis by (simp add: ice_guard_eq)
next
  case False
  show ?thesis
    unfolding band_iff[OF False, symmetric] using False by (auto simp: ice_guard_eq)
qed

lemma water_leaves:
  assumes "water_guard freq t = Inr True"
  shows "complex_n_water_liebe93 mem freq t = Inr (replicate (length freq) (NaN, NaN))"
  using assms by (simp add: complex_n_water_liebe93_def Let_def rbind_def fill_np_empty)

lemma ice_leaves:
  assumes "ice_guard freq t = Inr True"
  shows "complex_n_ice_matzler06 mem freq t = Inr (replicate (length freq) (NaN, NaN))"
  using assms by (simp add: complex_n_ice_matzler06_def Let_def rbind_def fill_np_empty)

lemma water_raises:
  assumes "water_guard freq t = Inl e"
  shows "complex_n_water_liebe93 mem freq t = Inl e"
  using assms by (simp add: complex_n_water_liebe93_def Let_def rbind_def)

lemma ice_raises:
  assumes "ice_guard freq t = Inl e"
  shows "complex_n_ice_matzler06 mem freq t = Inl e"
  using assms by (simp add: complex_n_ice_matzler06_def Let_def rbind_def)

lemma water_cases:
  "complex_n_water_liebe93 mem freq t =
     (if t < TEMP_0_C - 40 \<or> 373.15 < t then Inr (replicate (length freq) (NaN, NaN))
      else if freq = [] then Inl ValueError
      else if Min (set freq) < 10 \<or> 1000 < Max (set freq)
        then Inr (replicate (length freq) (NaN, NaN))
      else Inr (map (\<lambda>f. emit (liebe93_n t f)) freq))"
proof (cases "t < TEMP_0_C - 40 \<or> 373.15 < t")
  case True
  then have "water_guard freq t = Inr True" by (simp add: water_guard_eq)
  from water_leaves[OF this, of mem] True show ?thesis by simp
next
  case out: False
  show ?thesis
  proof (cases "freq = []")
    case True
    then have "water_guard freq t = Inl ValueError" using out by (simp add: water_guard_eq)
    from water_raises[OF this, of mem] out True show ?thesis by simp
  next
    case ne: False
    show ?thesis
    proof (cases "Min (set freq) < 10 \<or> 1000 < Max (set freq)")
      case True
      then have "water_guard freq t = Inr True" using out ne by (simp add: water_guard_eq)
      from water_leaves[OF this, of mem] out ne True show ?thesis by simp
    next
      case False
      then have "water_guard freq t = Inr False" using out ne by (simp add: water_guard_eq)
      then have "TEMP_0_C - 40 \<le> t" "t \<le> 373.15" "freq \<noteq> []"
        "\<forall>f\<in>set freq. 10 \<le> f \<and> f \<le> 1000"
        by (simp_all add: water_guard_passes)
      from water_in_window[OF this, of mem] out ne False show ?thesis by simp
    qed
  qed
qed

lemma ice_cases:
  "complex_n_ice_matzler06 mem freq t =
     (if t < 20 \<or> 280 < t then Inr (replicate (length freq) (NaN, NaN))
      else if freq = [] then Inl ValueError
      else if Min (set freq) < 0.01 \<or> 3000 < Max (set freq)
        then Inr (replicate (length freq) (NaN, NaN))
      else Inr (map (\<lambda>f. emit (matzler06_n t f)) freq))"
proof (cases "t < 20 \<or> 280 < t")
  case True
  then have "ice_guard freq t = Inr True" by (simp add: ice_guard_eq)
  from ice_leaves[OF this, of mem] True show ?thesis by simp
next
  case out: False
  show ?thesis
  proof (cases "freq = []")
    case True
    then have "ice_guard freq t = Inl ValueError" using out by (simp add: ice_guard_eq)
    from ice_raises[OF this, of mem] out True show ?thesis by simp
  next
    case ne: False
    show ?thesis
    proof (cases "Min (set freq) < 0.01 \<or> 3000 < Max (set freq)")
      case True
      then have "ice_guard freq t = Inr True" using out ne by (simp add: ice_guard_eq)
      from ice_leaves[OF this, of mem] out ne True show ?thesis by simp
    next
      case False
      then have "ice_guard freq t = Inr False" using out ne by (simp add: ice_guard_eq)
      then have "20 \<le> t" "t \<le> 280" "freq \<noteq> []"
        "\<forall>f\<in>set freq. 0.01 \<le> f \<and> f \<le> 3000"
        by (simp_all add: ice_guard_passes)
      from ice_in_window[OF this, of mem] out ne False show ?thesis by simp
    qed
  qed
qed

lemma water_locals_300:
  "water_locals 300 = Inr \<lparr>theta = 0, e0 = 77.66, e1 = 5.210986, f1 = 20.2, e2 = 3.52, f2 = 803.96\<rparr>"
  by (simp add: water_locals_def rbind_def py_div_def Let_def)

lemma ice_locals_273: "\<exists>p. ice_locals 273 = Inr p \<and> reps p = 3.1884"
  using ice_locals_eq[of 273] by simp

lemma re_nonneg_emit_csqrt: "re_nonneg (emit (csqrt z))"
  by (simp add: re_nonneg_def emit_def Re_csqrt del: csqrt.simps)

lemma computed_rows: "list_all is_computed (map (\<lambda>f. emit (g f)) freq)"
  by (simp add: list_all_iff is_computed_def emit_def)

section \<open>The claims\<close>

subsection \<open>Outside the validity window\<close>

text \<open>
  Claim C1, as the code has it. \<open>complex_n_water_liebe93\<close>: when the temperature is below
  the lower bound that the guard computes, \<open>TEMP_0_C - 40\<close> in doubles
  (233.14999999999998, the double below 233.15), or above 373.15, or the minimum of the
  frequency grid is below 10, or its maximum is above 1000, the call returns, without
  raising, a matrix with one row for each frequency and not-a-number in both columns of
  every row; no row holds a computed value. A grid has a minimum and a maximum when it is
  not empty.
\<close>

theorem water_outside_window_all_nan:
  assumes "t < TEMP_0_C - 40 \<or> 373.15 < t
           \<or> (freq \<noteq> [] \<and> Min (set freq) < 10) \<or> (freq \<noteq> [] \<and> 1000 < Max (set freq))"
  shows "complex_n_water_liebe93 mem freq t = Inr (replicate (length freq) (NaN, NaN))"
  using assms by (auto simp: water_cases)

theorem water_outside_window_all_nan_witness:
  "complex_n_water_liebe93 stale [100, 5] 300 = Inr [(NaN, NaN), (NaN, NaN)]
   \<and> complex_n_water_liebe93 stale [100] 200 = Inr [(NaN, NaN)]
   \<and> complex_n_water_liebe93 stale [100] 233.1499 = Inr [(NaN, NaN)]
   \<and> complex_n_water_liebe93 stale [] 373.16 = Inr []"
  using water_outside_window_all_nan[of 300 "[100, 5]" stale]
    water_outside_window_all_nan[of 200 "[100]" stale]
    water_outside_window_all_nan[of "233.1499" "[100]" stale]
    water_outside_window_all_nan[of "373.16" "[]" stale]
  by (simp add: TEMP_0_C_def)

text \<open>
  With 233.15 as the lower bound the statement fails: the temperature that the code computes
  as \<^verbatim>\<open>273.15 - 40\<close> is below 233.15, and the call with it returns a computed row.
\<close>

theorem water_at_computed_lower_bound:
  "(2050809088127795 / 2 ^ 43 :: real) < 233.15
   \<and> complex_n_water_liebe93 stale [100] (2050809088127795 / 2 ^ 43)
       = Inr [emit (liebe93_n (2050809088127795 / 2 ^ 43) 100)]
   \<and> complex_n_water_liebe93 stale [100] (2050809088127795 / 2 ^ 43)
       \<noteq> Inr (replicate (length [100 :: real]) (NaN, NaN))"
proof -
  have t: "TEMP_0_C - 40 \<le> 2050809088127795 / 2 ^ 43" "(2050809088127795 / 2 ^ 43 :: real) \<le> 373.15"
    by (simp_all add: TEMP_0_C_def)
  have "complex_n_water_liebe93 stale [100] (2050809088127795 / 2 ^ 43)
          = Inr [emit (liebe93_n (2050809088127795 / 2 ^ 43) 100)]"
    using water_in_window[OF t, of "[100]" stale] by simp
  then show ?thesis by (simp add: emit_def)
qed

text \<open>
  Claim C2. \<open>complex_n_ice_matzler06\<close>: when the temperature is outside \<open>[20, 280]\<close>, or
  the minimum of the frequency grid is below 0.01, or its maximum is above 3000, the call
  returns, without raising, a matrix with one row for each frequency and not-a-number in
  both columns of every row.
\<close>

theorem ice_outside_window_all_nan:
  assumes "t < 20 \<or> 280 < t
           \<or> (freq \<noteq> [] \<and> Min (set freq) < 0.01) \<or> (freq \<noteq> [] \<and> 3000 < Max (set freq))"
  shows "complex_n_ice_matzler06 mem freq t = Inr (replicate (length freq) (NaN, NaN))"
  using assms by (auto simp: ice_cases)

theorem ice_outside_window_all_nan_witness:
  "complex_n_ice_matzler06 stale [100, 5000] 250 = Inr [(NaN, NaN), (NaN, NaN)]
   \<and> complex_n_ice_matzler06 stale [100] 10 = Inr [(NaN, NaN)]"
  using ice_outside_window_all_nan[of 250 "[100, 5000]" stale]
    ice_outside_window_all_nan[of 10 "[100]" stale]
  by simp

subsection \<open>Inside the validity window\<close>

text \<open>
  Claim C3. \<open>complex_n_water_liebe93\<close>: when the temperature and the grid pass the guard,
  the row of each frequency \<open>f\<close> is the real and the imaginary part of the principal square
  root of \<open>\<epsilon>(f) = e2 + (e1 - e2) / (1 - i f / f2) + (e0 - e1) / (1 - i f / f1)\<close>, with the
  parameters of the specification; at 300 K the code has \<open>e0 = 77.66\<close> and \<open>f1 = 20.2\<close>.
\<close>

theorem water_rows_are_liebe93:
  assumes "water_guard freq t = Inr False"
  shows "complex_n_water_liebe93 mem freq t
           = Inr (map (\<lambda>f. (Num (Re (liebe93_n t f)), Num (Im (liebe93_n t f)))) freq)
         \<and> water_locals 300
           = Inr \<lparr>theta = 0, e0 = 77.66, e1 = 5.210986, f1 = 20.2, e2 = 3.52, f2 = 803.96\<rparr>"
proof -
  have "TEMP_0_C - 40 \<le> t" "t \<le> 373.15" "freq \<noteq> []" "\<forall>f\<in>set freq. 10 \<le> f \<and> f \<le> 1000"
    using assms by (simp_all add: water_guard_passes)
  from water_in_window[OF this, of mem] show ?thesis
    by (simp add: emit_def water_locals_300)
qed

theorem water_rows_are_liebe93_witness:
  "water_guard [100, 250] 300 = Inr False
   \<and> complex_n_water_liebe93 stale [100, 250] 300
       = Inr [(Num (Re (liebe93_n 300 100)), Num (Im (liebe93_n 300 100))),
              (Num (Re (liebe93_n 300 250)), Num (Im (liebe93_n 300 250)))]"
proof -
  have g: "water_guard [100, 250] 300 = Inr False"
    by (simp add: water_guard_def rbind_def TEMP_0_C_def)
  show ?thesis
    using g water_rows_are_liebe93[OF g, of stale] by simp
qed

text \<open>
  Claim C4. \<open>complex_n_ice_matzler06\<close>: when the temperature and the grid pass the guard,
  the row of each frequency \<open>f\<close> is the real and the imaginary part of the principal square
  root of \<open>\<epsilon>(f) = reps + i ieps\<close>, with \<open>ieps = \<alpha> / f + \<beta> f\<close> and the parameters of the
  specification; at 273 K the code has \<open>reps = 3.1884\<close>.
\<close>

theorem ice_rows_are_matzler06:
  assumes "ice_guard freq t = Inr False"
  shows "complex_n_ice_matzler06 mem freq t
           = Inr (map (\<lambda>f. (Num (Re (matzler06_n t f)), Num (Im (matzler06_n t f)))) freq)
         \<and> (\<exists>p. ice_locals 273 = Inr p \<and> reps p = 3.1884)"
proof -
  have "20 \<le> t" "t \<le> 280" "freq \<noteq> []" "\<forall>f\<in>set freq. 0.01 \<le> f \<and> f \<le> 3000"
    using assms by (simp_all add: ice_guard_passes)
  from ice_in_window[OF this, of mem]
  have "complex_n_ice_matzler06 mem freq t
          = Inr (map (\<lambda>f. (Num (Re (matzler06_n t f)), Num (Im (matzler06_n t f)))) freq)"
    by (simp add: emit_def)
  then show ?thesis
    using ice_locals_273 by (rule conjI)
qed

theorem ice_rows_are_matzler06_witness:
  "ice_guard [100] 273 = Inr False
   \<and> complex_n_ice_matzler06 stale [100] 273
       = Inr [(Num (Re (matzler06_n 273 100)), Num (Im (matzler06_n 273 100)))]"
proof -
  have g: "ice_guard [100] 273 = Inr False"
    by (simp add: ice_guard_def rbind_def)
  show ?thesis
    using g ice_rows_are_matzler06[OF g, of stale] by simp
qed

subsection \<open>The number of rows and the empty grid\<close>

text \<open>
  Claim C5 asks, for every grid and every temperature, for a returned matrix with as many
  rows as the grid has frequencies. The code misses the empty grid: with a temperature that
  passes the temperature test, \<^verbatim>\<open>np.min\<close> raises on the empty array and no matrix is
  returned, while with a temperature that fails the test the same grid gets the matrix of
  no rows. Both functions, each at a temperature inside and at one outside its window:
\<close>

theorem empty_grid_raises_inside_window:
  "complex_n_water_liebe93 stale [] 300 = Inl ValueError
   \<and> complex_n_water_liebe93 stale [] 200 = Inr []
   \<and> complex_n_ice_matzler06 stale [] 250 = Inl ValueError
   \<and> complex_n_ice_matzler06 stale [] 300 = Inr []"
  by (simp add: complex_n_water_liebe93_def water_guard_def complex_n_ice_matzler06_def
      ice_guard_def rbind_def Let_def TEMP_0_C_def np_empty_def fill_def)

text \<open>
  Claim C6, as the code has it. Both functions on the empty grid with a temperature outside
  the temperature window of the guard: the call returns the empty matrix without raising,
  and it is the guard that returns it.
\<close>

theorem empty_grid_outside_window:
  "(t < TEMP_0_C - 40 \<or> 373.15 < t \<longrightarrow>
      water_guard [] t = Inr True \<and> complex_n_water_liebe93 mem [] t = Inr [])
   \<and> (t < 20 \<or> 280 < t \<longrightarrow>
      ice_guard [] t = Inr True \<and> complex_n_ice_matzler06 mem [] t = Inr [])"
  by (simp add: water_cases ice_cases water_guard_eq ice_guard_eq)

theorem empty_grid_outside_window_witness:
  "water_guard [] 200 = Inr True \<and> complex_n_water_liebe93 stale [] 200 = Inr []
   \<and> ice_guard [] 300 = Inr True \<and> complex_n_ice_matzler06 stale [] 300 = Inr []"
  using empty_grid_outside_window[of 200 stale] empty_grid_outside_window[of 300 stale]
  by (simp add: TEMP_0_C_def)

text \<open>
  For any temperature and with no guard in play the statement fails: at 10 K the empty
  result of the ice function is the one the guard returns, and at 100 K, where the guard
  does not return, the call raises.
\<close>

theorem ice_empty_grid_guard_or_raise:
  "ice_guard [] 10 = Inr True
   \<and> complex_n_ice_matzler06 stale [] 10 = Inr []
   \<and> ice_guard [] 100 \<noteq> Inr True
   \<and> complex_n_ice_matzler06 stale [] 100 = Inl ValueError"
  by (simp add: complex_n_ice_matzler06_def ice_guard_def rbind_def Let_def np_empty_def fill_def)

subsection \<open>The bounds of the window are inside it\<close>

text \<open>
  Claim C7. For every grid in range (not empty, with every frequency in the band of the
  model): the water function at exactly 273.15 K, and the ice function at exactly 20 K and
  at exactly 280 K, pass the guard and return the computed rows, none of which holds
  not-a-number. The same holds for the water function at 233.15 K and at 373.15 K.
\<close>

theorem boundary_temperatures_pass:
  "(freq \<noteq> [] \<and> (\<forall>f\<in>set freq. 10 \<le> f \<and> f \<le> 1000) \<longrightarrow>
      list_all (\<lambda>t. water_guard freq t = Inr False
                   \<and> complex_n_water_liebe93 mem freq t = Inr (map (\<lambda>f. emit (liebe93_n t f)) freq)
                   \<and> list_all is_computed (map (\<lambda>f. emit (liebe93_n t f)) freq))
        [273.15, 233.15, 373.15])
   \<and> (freq \<noteq> [] \<and> (\<forall>f\<in>set freq. 0.01 \<le> f \<and> f \<le> 3000) \<longrightarrow>
      list_all (\<lambda>t. ice_guard freq t = Inr False
                   \<and> complex_n_ice_matzler06 mem freq t = Inr (map (\<lambda>f. emit (matzler06_n t f)) freq)
                   \<and> list_all is_computed (map (\<lambda>f. emit (matzler06_n t f)) freq))
        [20, 280])"
  using water_lower_bound(3)
  by (simp add: computed_rows water_guard_passes ice_guard_passes water_in_window ice_in_window)

theorem boundary_temperatures_pass_witness:
  "water_guard [10, 1000] 273.15 = Inr False
   \<and> complex_n_water_liebe93 stale [10, 1000] 273.15
       = Inr [emit (liebe93_n 273.15 10), emit (liebe93_n 273.15 1000)]
   \<and> ice_guard [0.01, 3000] 20 = Inr False
   \<and> complex_n_ice_matzler06 stale [0.01, 3000] 20
       = Inr [emit (matzler06_n 20 0.01), emit (matzler06_n 20 3000)]
   \<and> ice_guard [0.01, 3000] 280 = Inr False
   \<and> complex_n_ice_matzler06 stale [0.01, 3000] 280
       = Inr [emit (matzler06_n 280 0.01), emit (matzler06_n 280 3000)]"
  using boundary_temperatures_pass[of "[10, 1000]" stale]
    boundary_temperatures_pass[of "[0.01, 3000]" stale]
  by simp

subsection \<open>The principal branch\<close>

text \<open>
  Claim C8. Both functions: for a temperature and a grid inside the window of the model,
  the call returns one row for each frequency and the real part of every row is a number not
  below zero. The one call inside the window that returns no rows is the one on the empty
  grid.
\<close>

theorem real_parts_nonnegative:
  "(233.15 \<le> t \<and> t \<le> 373.15 \<and> (\<forall>f\<in>set freq. 10 \<le> f \<and> f \<le> 1000) \<longrightarrow>
      (case complex_n_water_liebe93 mem freq t of
         Inr rows \<Rightarrow> length rows = length freq \<and> list_all re_nonneg rows
       | Inl e \<Rightarrow> freq = []))
   \<and> (20 \<le> t \<and> t \<le> 280 \<and> (\<forall>f\<in>set freq. 0.01 \<le> f \<and> f \<le> 3000) \<longrightarrow>
      (case complex_n_ice_matzler06 mem freq t of
         Inr rows \<Rightarrow> length rows = length freq \<and> list_all re_nonneg rows
       | Inl e \<Rightarrow> freq = []))"
proof -
  have w: "list_all re_nonneg (map (\<lambda>f. emit (liebe93_n t f)) freq)"
    by (simp add: list_all_iff liebe93_n_def re_nonneg_emit_csqrt)
  have i: "list_all re_nonneg (map (\<lambda>f. emit (matzler06_n t f)) freq)"
    by (simp add: list_all_iff matzler06_n_def re_nonneg_emit_csqrt)
  have "case complex_n_water_liebe93 mem freq t of
         Inr rows \<Rightarrow> length rows = length freq \<and> list_all re_nonneg rows
       | Inl e \<Rightarrow> freq = []"
    if "233.15 \<le> t" "t \<le> 373.15" "\<forall>f\<in>set freq. 10 \<le> f \<and> f \<le> 1000"
  proof (cases "freq = []")
    case True
    then show ?thesis using that water_lower_bound(3) by (simp add: water_cases)
  next
    case False
    have "TEMP_0_C - 40 \<le> t" using that(1) water_lower_bound(3) by simp
    from water_in_window[OF this that(2) False that(3), of mem] w show ?thesis by simp
  qed
  moreover have "case complex_n_ice_matzler06 mem freq t of
         Inr rows \<Rightarrow> length rows = length freq \<and> list_all re_nonneg rows
       | Inl e \<Rightarrow> freq = []"
    if "20 \<le> t" "t \<le> 280" "\<forall>f\<in>set freq. 0.01 \<le> f \<and> f \<le> 3000"
  proof (cases "freq = []")
    case True
    then show ?thesis using that by (simp add: ice_cases)
  next
    case False
    from ice_in_window[OF that(1,2) False that(3), of mem] i show ?thesis by simp
  qed
  ultimately show ?thesis by blast
qed

theorem real_parts_nonnegative_witness:
  "(\<exists>rows. complex_n_water_liebe93 stale [10, 183.31] 300 = Inr rows
       \<and> length rows = 2 \<and> list_all re_nonneg rows)
   \<and> (\<exists>rows. complex_n_ice_matzler06 stale [0.01, 2999] 250 = Inr rows
       \<and> length rows = 2 \<and> list_all re_nonneg rows)"
  using real_parts_nonnegative[of 300 "[10, 183.31]" stale]
    real_parts_nonnegative[of 250 "[0.01, 2999]" stale]
  by (auto split: sum.splits)

subsection \<open>No hidden state\<close>

text \<open>
  Claim C9. Both functions: two calls with the same grid and the same temperature give the
  same outcome. A call reads nothing but its two arguments and the memory that
  \<^verbatim>\<open>np.empty\<close> hands out, and what that memory held does not reach the outcome.
\<close>

theorem no_hidden_state:
  "complex_n_water_liebe93 mem freq t = complex_n_water_liebe93 mem' freq t
   \<and> complex_n_ice_matzler06 mem freq t = complex_n_ice_matzler06 mem' freq t"
  by (simp only: water_cases ice_cases)

theorem no_hidden_state_witness:
  "complex_n_water_liebe93 stale [100, 5] 300 = complex_n_water_liebe93 blank [100, 5] 300
   \<and> complex_n_ice_matzler06 stale [100] 250 = complex_n_ice_matzler06 blank [100] 250"
  using no_hidden_state[of stale "[100, 5]" 300 blank] no_hidden_state[of stale "[100]" 250 blank]
  by simp

subsection \<open>The division by the frequency\<close>

text \<open>
  Claim C10. \<open>complex_n_ice_matzler06\<close>: when the guard lets the loop run, every frequency
  of the grid is at least 0.01 and so above zero, the division of \<open>alfa\<close> by it succeeds and
  the computation of the loop body does not fail by a zero divisor; no call of the
  function ends in a division by zero.
\<close>

theorem ice_division_by_frequency_safe:
  "(ice_guard freq t = Inr False \<longrightarrow>
      (\<forall>f\<in>set freq. 0.01 \<le> f \<and> 0 < f
         \<and> py_div (alfa p) f = Inr (alfa p / f) \<and> ice_n p f \<noteq> Inl ZeroDivisionError))
   \<and> complex_n_ice_matzler06 mem freq t \<noteq> Inl ZeroDivisionError"
proof -
  have "0.01 \<le> f \<and> 0 < f \<and> py_div (alfa p) f = Inr (alfa p / f)
          \<and> ice_n p f \<noteq> Inl ZeroDivisionError"
    if "ice_guard freq t = Inr False" and "f \<in> set freq" for f
  proof -
    have "0.01 \<le> f" using that by (simp add: ice_guard_passes)
    then show ?thesis by (simp add: py_div_def ice_n_def rbind_def Let_def)
  qed
  moreover have "complex_n_ice_matzler06 mem freq t \<noteq> Inl ZeroDivisionError"
    by (simp add: ice_cases)
  ultimately show ?thesis by blast
qed

theorem ice_division_by_frequency_safe_witness:
  "ice_guard [0.01, 5] 100 = Inr False
   \<and> py_div (7::real) 0.01 = Inr (7 / 0.01) \<and> py_div (7::real) 5 = Inr (7 / 5)
   \<and> complex_n_ice_matzler06 stale [0.01, 5] 100 \<noteq> Inl ZeroDivisionError"
proof -
  have g: "ice_guard [0.01, 5] 100 = Inr False"
    by (simp add: ice_guard_def rbind_def)
  show ?thesis
    using g ice_division_by_frequency_safe[of "[0.01, 5]" 100
        "\<lparr>B2 = 0, deltabeta = 0, ebdt = 1, betam = 0, theta_ice = 0, alfa = 7, reps = 3\<rparr>" stale]
    by simp
qed

end
